theory Spec2Isabelle
  imports Complex_Main "HOL-Library.AList"
begin

section \<open>Python values\<close>

text \<open>
  The module \<open>neverbounce_sdk/core.py\<close> is dynamically typed. The values it handles are the
  values \<open>resp.json()\<close> can return (None, booleans, numbers, strings, lists, and dicts with
  string keys) and instances of the SDK's authentication class \<open>StaticTokenAuth\<close>. A dict
  is an association list in insertion order; lookup is \<open>map_of\<close>.
\<close>

text \<open>
  Modelled from the spec: the class \<open>StaticTokenAuth\<close> of \<open>auth.py\<close>, which is not among the
  sources. The spec describes it as the strategy that wraps a static credential so that
  it can be attached to an outgoing request: an instance is the constructor
  \<open>StaticTokenAuth\<close> applied to the value it was constructed from. The spec counts a
  client that holds a strategy as one whose auth is resolved, so an instance is true
  wherever the module tests it.
\<close>

datatype pyval =
    PyNone
  | PyBool bool
  | PyInt int
  | PyFloat real
  | PyStr string
  | PyList "pyval list"
  | PyDict "(string \<times> pyval) list"
  | StaticTokenAuth pyval

text \<open>
  Python's truth value of an object, as \<open>not x\<close> and \<open>if x\<close> read it: None, False, zero
  and the empty string, list and dict are false, everything else is true.
\<close>

fun truthy :: "pyval \<Rightarrow> bool" where
  "truthy PyNone = False"
| "truthy (PyBool b) = b"
| "truthy (PyInt i) = (i \<noteq> 0)"
| "truthy (PyFloat r) = (r \<noteq> 0)"
| "truthy (PyStr s) = (s \<noteq> [])"
| "truthy (PyList xs) = (xs \<noteq> [])"
| "truthy (PyDict d) = (d \<noteq> [])"
| "truthy (StaticTokenAuth t) = True"

text \<open>\<open>isinstance(val, StaticTokenAuth)\<close>.\<close>

fun isinstance_StaticTokenAuth :: "pyval \<Rightarrow> bool" where
  "isinstance_StaticTokenAuth (StaticTokenAuth t) = True"
| "isinstance_StaticTokenAuth v = False"

section \<open>Exceptions\<close>

text \<open>
  Every exception the module can raise or let through is a value. The type parameter
  \<open>'k\<close> is the type of the exception classes stored in the table
  \<open>_status_to_exception\<close>; \<open>APIError exc message execution_time\<close> is the exception
  \<open>exc(message, execution_time)\<close> built from such a class.
\<close>

datatype 'k exn =
    HTTPError string
  | JSONDecodeError
  | RequestException string
  | TypeError
  | KeyError pyval
  | AttributeError
  | NeverBounceAPIException pyval
  | APIError 'k pyval pyval

section \<open>Sessions, clients and responses\<close>

text \<open>
  A session is a shared, mutable object of the \<open>requests\<close> library: it lives in a store
  (a list of session objects, a reference being an index into it), so that closing a
  session is visible to everyone who holds it. Of a session the module reads the
  attribute \<open>auth\<close> and calls \<open>close()\<close> and \<open>request(...)\<close>.
\<close>

record session_obj =
  session_auth :: pyval
  closed :: bool

type_synonym store = "session_obj list"

text \<open>
  An \<open>APICore\<close> object: the private attribute \<open>_auth\<close> (here \<open>priv_auth\<close>) and the
  attribute \<open>session\<close>, a reference into the store or None.
\<close>

record client =
  priv_auth :: pyval
  session :: "nat option"

text \<open>
  A response of the \<open>requests\<close> library, by what its two methods do:
  \<open>raise_for_status()\<close> raises an \<open>HTTPError\<close> (\<open>Some\<close>) or returns, and \<open>json()\<close>
  returns the parsed body or raises a decoding error (\<open>None\<close>).
\<close>

record response =
  raise_for_status :: "string option"
  json :: "pyval option"

section \<open>The auth property\<close>

text \<open>
  The getter of \<open>APICore.auth\<close>:
  \<^verbatim>\<open>if self.session and not self._auth: return self.session.auth\<close>, else
  \<^verbatim>\<open>return self._auth\<close>.
\<close>

definition auth :: "store \<Rightarrow> client \<Rightarrow> pyval" where
  "auth h self =
     (if session self \<noteq> None \<and> \<not> truthy (priv_auth self)
      then session_auth (h ! the (session self))
      else priv_auth self)"

text \<open>The setter: None, an instance of \<open>StaticTokenAuth\<close>, or anything else.\<close>

definition auth_setter :: "client \<Rightarrow> pyval \<Rightarrow> client" where
  "auth_setter self val =
     (if val = PyNone then self\<lparr>priv_auth := PyNone\<rparr>
      else if isinstance_StaticTokenAuth val then self\<lparr>priv_auth := val\<rparr>
      else self\<lparr>priv_auth := StaticTokenAuth val\<rparr>)"

text \<open>The deleter.\<close>

definition auth_deleter :: "client \<Rightarrow> client" where
  "auth_deleter self = self\<lparr>priv_auth := PyNone\<rparr>"

text \<open>
  \<open>APICore.__init__(self, auth=None, session=None)\<close>: \<open>self.auth = auth\<close> goes through
  the setter, then \<open>self.session = session\<close>. The setter reads no attribute, so the
  attributes of the fresh object it starts from do not matter.
\<close>

definition init :: "pyval \<Rightarrow> nat option \<Rightarrow> client" where
  "init auth_arg session_arg =
     (auth_setter \<lparr>priv_auth = PyNone, session = None\<rparr> auth_arg)\<lparr>session := session_arg\<rparr>"

section \<open>Issuing a request\<close>

text \<open>
  A call handed to the transport: \<open>self.session.request(method, url, *args, **kwargs)\<close>
  on the session of the client, or \<open>requests.request(method, url, *args, **kwargs)\<close>.
  The transport itself is outside the module and is a parameter: it returns a response
  or raises.
\<close>

datatype call =
    SessionRequest nat string string "pyval list" "(string \<times> pyval) list"
  | RequestsRequest string string "pyval list" "(string \<times> pyval) list"

fun call_kwargs :: "call \<Rightarrow> (string \<times> pyval) list" where
  "call_kwargs (SessionRequest a m u args kwargs) = kwargs"
| "call_kwargs (RequestsRequest m u args kwargs) = kwargs"

text \<open>\<open>d.get(k)\<close> on a dict: the value, or None when the key is absent.\<close>

definition dict_get :: "(string \<times> pyval) list \<Rightarrow> string \<Rightarrow> pyval" where
  "dict_get d k = (case map_of d k of None \<Rightarrow> PyNone | Some v \<Rightarrow> v)"

text \<open>
  \<open>APICore._make_request\<close>: \<^verbatim>\<open>if not kwargs.get('auth'): kwargs.update({'auth': self.auth})\<close>,
  then the call goes through the session when there is one. Nothing is caught.
\<close>

definition make_request ::
  "store \<Rightarrow> client \<Rightarrow> (call \<Rightarrow> 'k exn + response) \<Rightarrow> string \<Rightarrow> string \<Rightarrow> pyval list \<Rightarrow>
   (string \<times> pyval) list \<Rightarrow> 'k exn + response" where
  "make_request h self transport meth url args kwargs =
     (let kwargs' = (if \<not> truthy (dict_get kwargs ''auth'')
                     then AList.update ''auth'' (auth h self) kwargs
                     else kwargs)
      in case session self of
           Some a \<Rightarrow> transport (SessionRequest a meth url args kwargs')
         | None \<Rightarrow> transport (RequestsRequest meth url args kwargs'))"

section \<open>Checking a response\<close>

text \<open>\<open>data[k]\<close> for a string \<open>k\<close>: only a dict can be subscripted by a string.\<close>

fun getitem :: "pyval \<Rightarrow> string \<Rightarrow> 'k exn + pyval" where
  "getitem (PyDict d) k = (case map_of d k of None \<Rightarrow> Inl (KeyError (PyStr k)) | Some v \<Rightarrow> Inr v)"
| "getitem v k = Inl TypeError"

text \<open>\<open>data.get(k)\<close>: a method of dicts.\<close>

fun get_method :: "pyval \<Rightarrow> string \<Rightarrow> 'k exn + pyval" where
  "get_method (PyDict d) k = Inr (dict_get d k)"
| "get_method v k = Inl AttributeError"

text \<open>
  \<open>_status_to_exception[api_status]\<close>. The table is defined in \<open>exceptions.py\<close>; here it
  is a parameter, a dict from status strings to exception classes. Subscripting a dict
  with a key it does not hold raises \<open>KeyError\<close>; a list or a dict is not hashable and
  raises \<open>TypeError\<close>; no other value equals a string key.
\<close>

fun status_lookup :: "(string \<rightharpoonup> 'k) \<Rightarrow> pyval \<Rightarrow> 'k exn + 'k" where
  "status_lookup tbl (PyStr s) = (case tbl s of None \<Rightarrow> Inl (KeyError (PyStr s)) | Some exc \<Rightarrow> Inr exc)"
| "status_lookup tbl (PyList xs) = Inl TypeError"
| "status_lookup tbl (PyDict d) = Inl TypeError"
| "status_lookup tbl v = Inl (KeyError v)"

text \<open>
  \<open>APICore._check_response\<close>, statement by statement: errors on the wire, the parsed
  body, the \<open>status\<close> field (only \<open>KeyError\<close> is caught there), success, and otherwise the
  exception class of the status, built from \<open>message\<close> and \<open>execution_time\<close>, the message
  rewritten for an \<open>auth_failure\<close> when \<open>self.auth\<close> is false.
\<close>

definition check_response ::
  "store \<Rightarrow> client \<Rightarrow> (string \<rightharpoonup> 'k) \<Rightarrow> response \<Rightarrow> 'k exn + response" where
  "check_response h self tbl resp =
     (case raise_for_status resp of
        Some e \<Rightarrow> Inl (HTTPError e)
      | None \<Rightarrow>
        (case json resp of
           None \<Rightarrow> Inl JSONDecodeError
         | Some data \<Rightarrow>
           (case getitem data ''status'' of
              Inl e \<Rightarrow>
                (case e of
                   KeyError k \<Rightarrow> Inl (NeverBounceAPIException data)
                 | _ \<Rightarrow> Inl e)
            | Inr api_status \<Rightarrow>
                if api_status = PyStr ''success'' then Inr resp
                else
                  (case status_lookup tbl api_status of
                     Inl e \<Rightarrow> Inl e
                   | Inr exc \<Rightarrow>
                     (case get_method data ''message'' of
                        Inl e \<Rightarrow> Inl e
                      | Inr message \<Rightarrow>
                        (case get_method data ''execution_time'' of
                           Inl e \<Rightarrow> Inl e
                         | Inr execution_time \<Rightarrow>
                             Inl (APIError exc
                                   (if api_status = PyStr ''auth_failure'' \<and> \<not> truthy (auth h self)
                                    then PyStr ''NeverBounceAPIClient.auth is not set''
                                    else message)
                                   execution_time)))))))"

section \<open>The scoped session\<close>

text \<open>
  \<open>APICore.__enter__\<close>: when \<open>self.session is None\<close>, \<open>requests.session()\<close> makes a new
  session (no auth, open) and the client keeps the reference. The third component is
  the value returned, \<open>self\<close>.
\<close>

definition enter :: "store \<Rightarrow> client \<Rightarrow> store \<times> client \<times> client" where
  "enter h self =
     (if session self = None
      then (let h' = h @ [\<lparr>session_auth = PyNone, closed = False\<rparr>];
                self' = self\<lparr>session := Some (length h)\<rparr>
            in (h', self', self'))
      else (h, self, self))"

text \<open>
  \<open>APICore.__exit__(self, *args)\<close>: \<open>self.session.close()\<close>, then
  \<open>self.session = None\<close>; the arguments (the exception raised in the scope, if any) are
  not read, and the method returns None. On a client whose session is None the call
  \<open>self.session.close()\<close> raises \<open>AttributeError\<close>.
\<close>

definition exit :: "store \<Rightarrow> client \<Rightarrow> 'a \<Rightarrow> 'k exn + (store \<times> client \<times> pyval)" where
  "exit h self args =
     (case session self of
        None \<Rightarrow> Inl AttributeError
      | Some a \<Rightarrow> Inr (h[a := (h ! a)\<lparr>closed := True\<rparr>], self\<lparr>session := None\<rparr>, PyNone))"

section \<open>Verifying one email\<close>

text \<open>
  \<open>NeverBounceAPIClient.verify(self, email, address_info=False, credits_info=False,
  max_execution_time=30)\<close>. An argument the caller leaves out is \<open>None\<close> here and takes
  the default of the signature. The two flags are booleans, and \<open>int(flag)\<close> is 0 or 1.
  The helper \<open>urlfor\<close> of \<open>utils.py\<close> is a parameter.
\<close>

definition verify ::
  "store \<Rightarrow> client \<Rightarrow> (call \<Rightarrow> 'k exn + response) \<Rightarrow> (string list \<Rightarrow> string) \<Rightarrow>
   (string \<rightharpoonup> 'k) \<Rightarrow> pyval \<Rightarrow> bool option \<Rightarrow> bool option \<Rightarrow> pyval option \<Rightarrow>
   'k exn + pyval" where
  "verify h self transport urlfor tbl email address_info_arg credits_info_arg
          max_execution_time_arg =
     (let address_info = (case address_info_arg of None \<Rightarrow> False | Some b \<Rightarrow> b);
          credits_info = (case credits_info_arg of None \<Rightarrow> False | Some b \<Rightarrow> b);
          max_execution_time = (case max_execution_time_arg of None \<Rightarrow> PyInt 30 | Some t \<Rightarrow> t);
          endpoint = urlfor [''single'', ''check''];
          params = PyDict [(''email'', email),
                           (''address_info'', PyInt (of_bool address_info)),
                           (''credits_info'', PyInt (of_bool credits_info)),
                           (''max_execution_time'', max_execution_time)]
      in case make_request h self transport ''GET'' endpoint [] [(''params'', params)] of
           Inl e \<Rightarrow> Inl e
         | Inr resp \<Rightarrow>
           (case check_response h self tbl resp of
              Inl e \<Rightarrow> Inl e
            | Inr checked \<Rightarrow>
              (case json resp of
                 None \<Rightarrow> Inl JSONDecodeError
               | Some payload \<Rightarrow> Inr payload)))"

section \<open>The table of exception classes\<close>

text \<open>
  Modelled from the spec: the exception classes and the table \<open>_status_to_exception\<close> of
  \<open>exceptions.py\<close>, which is not among the sources. The error taxonomy names the status
  strings \<open>auth_failure\<close>, \<open>throttle_triggered\<close>, \<open>bad_referrer\<close>, \<open>invalid_credentials\<close>
  and \<open>general_failure\<close>, each with an error kind of its own. The table is a Python dict
  and holds these five entries. The theorems below hold for every table; this one gives
  them concrete inputs.
\<close>

datatype api_error_kind =
    AuthFailure
  | ThrottleTriggered
  | BadReferrer
  | InvalidCredentials
  | GeneralFailure

definition status_to_exception :: "string \<rightharpoonup> api_error_kind" where
  "status_to_exception =
     map_of [(''auth_failure'', AuthFailure),
             (''throttle_triggered'', ThrottleTriggered),
             (''bad_referrer'', BadReferrer),
             (''invalid_credentials'', InvalidCredentials),
             (''general_failure'', GeneralFailure)]"

section \<open>Properties of the response check\<close>

text \<open>
  Once the wire check and the parse have passed and the body is a dict with a \<open>status\<close>
  other than \<open>success\<close>, the outcome is decided by the table lookup alone.
\<close>

lemma check_response_status:
  assumes "raise_for_status resp = None"
    and "json resp = Some (PyDict d)"
    and "map_of d ''status'' = Some api_status"
    and "api_status \<noteq> PyStr ''success''"
  shows "check_response h self tbl resp =
           (case status_lookup tbl api_status of
              Inl e \<Rightarrow> Inl e
            | Inr exc \<Rightarrow>
                Inl (APIError exc
                      (if api_status = PyStr ''auth_failure'' \<and> \<not> truthy (auth h self)
                       then PyStr ''NeverBounceAPIClient.auth is not set''
                       else dict_get d ''message'')
                      (dict_get d ''execution_time'')))"
  using assms by (simp add: check_response_def split: sum.splits)

text \<open>
  C1. Claim: for every response whose status is a non-success string that the error
  taxonomy does not list, \<open>_check_response\<close> raises the catch-all \<open>general_failure\<close> kind
  rather than failing the lookup. The code subscripts the table
  (\<open>_status_to_exception[api_status]\<close>) and has no fallback, so the claim fails: at the
  status \<open>bogus\<close> the lookup itself raises \<open>KeyError\<close>. As amended: for every response
  whose status is a non-success string that the table does not hold, \<open>_check_response\<close>
  raises the \<open>KeyError\<close> of the lookup, carrying that status, and no API error kind.
\<close>

theorem C1_unlisted_status_fails_lookup:
  assumes "raise_for_status resp = None"
    and "json resp = Some (PyDict d)"
    and "map_of d ''status'' = Some (PyStr s)"
    and "s \<noteq> ''success''"
    and "tbl s = None"
  shows "check_response h self tbl resp = Inl (KeyError (PyStr s))"
  using assms by (simp add: check_response_status)

theorem C1_unlisted_status_fails_lookup_witness:
  "raise_for_status
     \<lparr>raise_for_status = None,
      json = Some (PyDict [(''status'', PyStr ''temp_unavail''),
                           (''message'', PyStr ''try later'')])\<rparr> = None \<and>
   status_to_exception ''temp_unavail'' = None \<and>
   check_response [] (init (PyStr ''secret'') None) status_to_exception
     \<lparr>raise_for_status = None,
      json = Some (PyDict [(''status'', PyStr ''temp_unavail''),
                           (''message'', PyStr ''try later'')])\<rparr>
   = Inl (KeyError (PyStr ''temp_unavail''))"
  using C1_unlisted_status_fails_lookup
    [of "\<lparr>raise_for_status = None,
           json = Some (PyDict [(''status'', PyStr ''temp_unavail''),
                                (''message'', PyStr ''try later'')])\<rparr>"
        "[(''status'', PyStr ''temp_unavail''), (''message'', PyStr ''try later'')]"
        "''temp_unavail''" status_to_exception "[]" "init (PyStr ''secret'') None"]
  by (simp add: status_to_exception_def)

theorem C1_general_failure_fallback_counterexample:
  "status_to_exception ''bogus'' = None \<and>
   check_response [] (init PyNone None) status_to_exception
     \<lparr>raise_for_status = None, json = Some (PyDict [(''status'', PyStr ''bogus'')])\<rparr>
   = Inl (KeyError (PyStr ''bogus'')) \<and>
   check_response [] (init PyNone None) status_to_exception
     \<lparr>raise_for_status = None, json = Some (PyDict [(''status'', PyStr ''bogus'')])\<rparr>
   \<noteq> Inl (APIError GeneralFailure PyNone PyNone)"
  by (simp add: check_response_def status_to_exception_def)

text \<open>
  C2. For every response whose status is \<open>auth_failure\<close>: when the auth the client
  resolves (its own strategy, else the session's) is absent, that is, false as
  \<open>not self.auth\<close> reads it, the raised error of the class mapped to \<open>auth_failure\<close> carries
  the fixed message \<open>NeverBounceAPIClient.auth is not set\<close>; when an auth is resolved, it
  carries the message of the payload as it is.
\<close>

theorem C2_auth_failure_message:
  assumes "raise_for_status resp = None"
    and "json resp = Some (PyDict d)"
    and "map_of d ''status'' = Some (PyStr ''auth_failure'')"
    and "tbl ''auth_failure'' = Some exc"
  shows "check_response h self tbl resp =
           Inl (APIError exc
                 (if truthy (auth h self) then dict_get d ''message''
                  else PyStr ''NeverBounceAPIClient.auth is not set'')
                 (dict_get d ''execution_time''))"
  using assms by (simp add: check_response_status)

theorem C2_auth_failure_message_witness:
  "auth [] (init PyNone None) = PyNone \<and>
   check_response [] (init PyNone None) status_to_exception
     \<lparr>raise_for_status = None,
      json = Some (PyDict [(''status'', PyStr ''auth_failure''),
                           (''message'', PyStr ''Invalid API key'')])\<rparr>
   = Inl (APIError AuthFailure (PyStr ''NeverBounceAPIClient.auth is not set'') PyNone) \<and>
   auth [] (init (PyStr ''secret'') None) = StaticTokenAuth (PyStr ''secret'') \<and>
   check_response [] (init (PyStr ''secret'') None) status_to_exception
     \<lparr>raise_for_status = None,
      json = Some (PyDict [(''status'', PyStr ''auth_failure''),
                           (''message'', PyStr ''Invalid API key'')])\<rparr>
   = Inl (APIError AuthFailure (PyStr ''Invalid API key'') PyNone)"
  using C2_auth_failure_message
    [of "\<lparr>raise_for_status = None,
           json = Some (PyDict [(''status'', PyStr ''auth_failure''),
                                (''message'', PyStr ''Invalid API key'')])\<rparr>"
        "[(''status'', PyStr ''auth_failure''), (''message'', PyStr ''Invalid API key'')]"
        status_to_exception AuthFailure "[]" "init PyNone None"]
    C2_auth_failure_message
    [of "\<lparr>raise_for_status = None,
           json = Some (PyDict [(''status'', PyStr ''auth_failure''),
                                (''message'', PyStr ''Invalid API key'')])\<rparr>"
        "[(''status'', PyStr ''auth_failure''), (''message'', PyStr ''Invalid API key'')]"
        status_to_exception AuthFailure "[]" "init (PyStr ''secret'') None"]
  by (simp add: status_to_exception_def auth_def init_def auth_setter_def dict_get_def)

text \<open>
  C4. Claim: for every response whose status is a recognized non-success string,
  \<open>_check_response\<close> raises exactly the error kind mapped to that status, constructed
  from the \<open>message\<close> and \<open>execution_time\<close> fields of the payload, each None when absent.
  The kind and the execution time are as claimed, but the message is not always the
  payload's: lines 90-91 replace it for the status \<open>auth_failure\<close> when no auth is
  resolved. As amended: the raised error is of the mapped kind, with the execution time
  of the payload and with the message of the payload, except that for \<open>auth_failure\<close>
  with no auth resolved the message is the fixed local string.
\<close>

theorem C4_listed_status_raises_mapped_kind:
  assumes "raise_for_status resp = None"
    and "json resp = Some (PyDict d)"
    and "map_of d ''status'' = Some (PyStr s)"
    and "s \<noteq> ''success''"
    and "tbl s = Some exc"
  shows "check_response h self tbl resp =
           Inl (APIError exc
                 (if s = ''auth_failure'' \<and> \<not> truthy (auth h self)
                  then PyStr ''NeverBounceAPIClient.auth is not set''
                  else (case map_of d ''message'' of None \<Rightarrow> PyNone | Some m \<Rightarrow> m))
                 (case map_of d ''execution_time'' of None \<Rightarrow> PyNone | Some t \<Rightarrow> t))"
  using assms by (simp add: check_response_status dict_get_def)

theorem C4_listed_status_raises_mapped_kind_witness:
  "status_to_exception ''throttle_triggered'' = Some ThrottleTriggered \<and>
   check_response [] (init PyNone None) status_to_exception
     \<lparr>raise_for_status = None,
      json = Some (PyDict [(''status'', PyStr ''throttle_triggered''),
                           (''message'', PyStr ''Too many requests''),
                           (''execution_time'', PyInt 12)])\<rparr>
   = Inl (APIError ThrottleTriggered (PyStr ''Too many requests'') (PyInt 12)) \<and>
   check_response [] (init PyNone None) status_to_exception
     \<lparr>raise_for_status = None,
      json = Some (PyDict [(''status'', PyStr ''general_failure'')])\<rparr>
   = Inl (APIError GeneralFailure PyNone PyNone)"
  using C4_listed_status_raises_mapped_kind
    [of "\<lparr>raise_for_status = None,
           json = Some (PyDict [(''status'', PyStr ''throttle_triggered''),
                                (''message'', PyStr ''Too many requests''),
                                (''execution_time'', PyInt 12)])\<rparr>"
        "[(''status'', PyStr ''throttle_triggered''),
          (''message'', PyStr ''Too many requests''),
          (''execution_time'', PyInt 12)]"
        "''throttle_triggered''" status_to_exception ThrottleTriggered "[]" "init PyNone None"]
    C4_listed_status_raises_mapped_kind
    [of "\<lparr>raise_for_status = None,
           json = Some (PyDict [(''status'', PyStr ''general_failure'')])\<rparr>"
        "[(''status'', PyStr ''general_failure'')]"
        "''general_failure''" status_to_exception GeneralFailure "[]" "init PyNone None"]
  by (simp add: status_to_exception_def)

theorem C4_payload_message_counterexample:
  "check_response [] (init PyNone None) status_to_exception
     \<lparr>raise_for_status = None,
      json = Some (PyDict [(''status'', PyStr ''auth_failure''),
                           (''message'', PyStr ''Invalid API key''),
                           (''execution_time'', PyInt 12)])\<rparr>
   = Inl (APIError AuthFailure (PyStr ''NeverBounceAPIClient.auth is not set'') (PyInt 12)) \<and>
   check_response [] (init PyNone None) status_to_exception
     \<lparr>raise_for_status = None,
      json = Some (PyDict [(''status'', PyStr ''auth_failure''),
                           (''message'', PyStr ''Invalid API key''),
                           (''execution_time'', PyInt 12)])\<rparr>
   \<noteq> Inl (APIError AuthFailure (PyStr ''Invalid API key'') (PyInt 12))"
  by (simp add: check_response_def status_to_exception_def dict_get_def auth_def init_def
      auth_setter_def)





text \<open>
  C7. For every response that passes the wire check and whose parsed body has the
  status \<open>success\<close>, \<open>_check_response\<close> raises nothing and returns the response it was
  given. The method assigns to no attribute of the client, so the model returns no new
  client and no new store.
\<close>

theorem C7_success_returns_response:
  assumes "raise_for_status resp = None"
    and "json resp = Some (PyDict d)"
    and "map_of d ''status'' = Some (PyStr ''success'')"
  shows "check_response h self tbl resp = Inr resp"
  using assms by (simp add: check_response_def)

theorem C7_success_returns_response_witness:
  "map_of [(''status'', PyStr ''success''), (''result'', PyStr ''valid'')] ''status''
     = Some (PyStr ''success'') \<and>
   check_response [] (init PyNone None) status_to_exception
     \<lparr>raise_for_status = None,
      json = Some (PyDict [(''status'', PyStr ''success''), (''result'', PyStr ''valid'')])\<rparr>
   = Inr \<lparr>raise_for_status = None,
          json = Some (PyDict [(''status'', PyStr ''success''), (''result'', PyStr ''valid'')])\<rparr>"
  using C7_success_returns_response
    [of "\<lparr>raise_for_status = None,
           json = Some (PyDict [(''status'', PyStr ''success''), (''result'', PyStr ''valid'')])\<rparr>"
        "[(''status'', PyStr ''success''), (''result'', PyStr ''valid'')]"
        "[]" "init PyNone None" status_to_exception]
  by simp

section \<open>Properties of the auth property and of request issuance\<close>

text \<open>
  C9. The setter normalizes its input: None clears the strategy, an instance of
  \<open>StaticTokenAuth\<close> is stored as it is, every other value is wrapped into a
  \<open>StaticTokenAuth\<close>; setting the stored strategy again changes nothing, and the setter
  leaves the session alone.
\<close>

theorem C9_auth_setter_normalizes:
  "priv_auth (auth_setter self PyNone) = PyNone \<and>
   priv_auth (auth_setter self (StaticTokenAuth t)) = StaticTokenAuth t \<and>
   (val \<noteq> PyNone \<and> \<not> isinstance_StaticTokenAuth val \<longrightarrow>
      priv_auth (auth_setter self val) = StaticTokenAuth val) \<and>
   auth_setter (auth_setter self val) (priv_auth (auth_setter self val)) = auth_setter self val \<and>
   session (auth_setter self val) = session self"
  by (simp add: auth_setter_def)

theorem C9_auth_setter_normalizes_witness:
  "PyStr ''secret'' \<noteq> PyNone \<and> \<not> isinstance_StaticTokenAuth (PyStr ''secret'') \<and>
   priv_auth (auth_setter \<lparr>priv_auth = PyNone, session = Some 0\<rparr> (PyStr ''secret''))
     = StaticTokenAuth (PyStr ''secret'') \<and>
   priv_auth (auth_setter \<lparr>priv_auth = PyNone, session = Some 0\<rparr>
                (StaticTokenAuth (PyStr ''secret'')))
     = StaticTokenAuth (PyStr ''secret'') \<and>
   priv_auth (auth_setter \<lparr>priv_auth = StaticTokenAuth (PyStr ''secret''), session = Some 0\<rparr>
                PyNone)
     = PyNone"
  using C9_auth_setter_normalizes
    [of "\<lparr>priv_auth = PyNone, session = Some 0\<rparr>" "PyStr ''secret''" "PyStr ''secret''"]
    C9_auth_setter_normalizes
    [of "\<lparr>priv_auth = StaticTokenAuth (PyStr ''secret''), session = Some 0\<rparr>"]
  by simp

lemma StaticTokenAuth_truthy:
  "isinstance_StaticTokenAuth v \<Longrightarrow> truthy v"
  by (cases v) simp_all

lemma auth_setter_stores_strategy:
  "val \<noteq> PyNone \<Longrightarrow> isinstance_StaticTokenAuth (priv_auth (auth_setter self val))"
  by (simp add: auth_setter_def)

text \<open>
  C3. Claim: for every credential input that is empty or unset, the client's \<open>auth\<close>
  resolves to the session's auth when a session is present and the client's own
  strategy is unset, and to none otherwise; at request time a per-call auth takes
  precedence over both. The setter tests \<open>val is None\<close>, not the truth value of \<open>val\<close>:
  an empty string is a credential like any other, it is wrapped, and \<open>auth\<close> resolves to
  the wrapped strategy, not to the session's auth and not to None. As amended: with no
  credential (the argument \<open>auth\<close> left at None, the property set to None, or deleted),
  \<open>auth\<close> is the \<open>auth\<close> of the session when the client has one, and None otherwise; with
  any other credential, an empty one included, it is the client's own strategy. At
  request time an auth passed by the caller is the one sent; only when the caller
  passes none is the client's \<open>auth\<close> put in its place, and the other keyword arguments
  are passed on as they are.
\<close>

theorem C3_auth_resolution:
  "auth h (init PyNone s) = (case s of None \<Rightarrow> PyNone | Some a \<Rightarrow> session_auth (h ! a)) \<and>
   auth h (auth_setter self PyNone) =
     (case session self of None \<Rightarrow> PyNone | Some a \<Rightarrow> session_auth (h ! a)) \<and>
   auth h (auth_deleter self) =
     (case session self of None \<Rightarrow> PyNone | Some a \<Rightarrow> session_auth (h ! a)) \<and>
   (val \<noteq> PyNone \<longrightarrow>
      auth h (auth_setter self val) = priv_auth (auth_setter self val) \<and>
      isinstance_StaticTokenAuth (auth h (auth_setter self val))) \<and>
   (\<exists>kw. make_request h self transport meth url args kwargs =
            transport (case session self of
                         Some a \<Rightarrow> SessionRequest a meth url args kw
                       | None \<Rightarrow> RequestsRequest meth url args kw) \<and>
          dict_get kw ''auth'' =
            (if truthy (dict_get kwargs ''auth'') then dict_get kwargs ''auth'' else auth h self) \<and>
          (\<forall>k. k \<noteq> ''auth'' \<longrightarrow> map_of kw k = map_of kwargs k))"
proof (intro conjI impI)
  show "auth h (init PyNone s) = (case s of None \<Rightarrow> PyNone | Some a \<Rightarrow> session_auth (h ! a))"
    by (simp add: auth_def init_def auth_setter_def split: option.splits)
  show "auth h (auth_setter self PyNone) =
          (case session self of None \<Rightarrow> PyNone | Some a \<Rightarrow> session_auth (h ! a))"
    by (simp add: auth_def auth_setter_def split: option.splits)
  show "auth h (auth_deleter self) =
          (case session self of None \<Rightarrow> PyNone | Some a \<Rightarrow> session_auth (h ! a))"
    by (simp add: auth_def auth_deleter_def split: option.splits)
next
  assume given: "val \<noteq> PyNone"
  then have "truthy (priv_auth (auth_setter self val))"
    by (intro StaticTokenAuth_truthy auth_setter_stores_strategy)
  then show own: "auth h (auth_setter self val) = priv_auth (auth_setter self val)"
    by (simp add: auth_def)
  from given show "isinstance_StaticTokenAuth (auth h (auth_setter self val))"
    unfolding own by (rule auth_setter_stores_strategy)
next
  let ?kw = "if \<not> truthy (dict_get kwargs ''auth'')
             then AList.update ''auth'' (auth h self) kwargs else kwargs"
  have sent: "make_request h self transport meth url args kwargs =
                transport (case session self of
                             Some a \<Rightarrow> SessionRequest a meth url args ?kw
                           | None \<Rightarrow> RequestsRequest meth url args ?kw)"
    by (simp add: make_request_def Let_def split: option.splits)
  have chosen: "dict_get ?kw ''auth'' =
                  (if truthy (dict_get kwargs ''auth'') then dict_get kwargs ''auth''
                   else auth h self)"
    by (simp add: dict_get_def update_conv')
  have others: "\<forall>k. k \<noteq> ''auth'' \<longrightarrow> map_of ?kw k = map_of kwargs k"
    by (simp add: update_conv')
  from sent chosen others
  show "\<exists>kw. make_request h self transport meth url args kwargs =
               transport (case session self of
                            Some a \<Rightarrow> SessionRequest a meth url args kw
                          | None \<Rightarrow> RequestsRequest meth url args kw) \<and>
             dict_get kw ''auth'' =
               (if truthy (dict_get kwargs ''auth'') then dict_get kwargs ''auth''
                else auth h self) \<and>
             (\<forall>k. k \<noteq> ''auth'' \<longrightarrow> map_of kw k = map_of kwargs k)"
    by blast
qed

theorem C3_auth_resolution_witness:
  "auth [\<lparr>session_auth = StaticTokenAuth (PyStr ''shared''), closed = False\<rparr>]
        (init PyNone (Some 0)) = StaticTokenAuth (PyStr ''shared'') \<and>
   auth [] (init PyNone None) = PyNone \<and>
   PyStr ''own'' \<noteq> PyNone \<and>
   auth [\<lparr>session_auth = StaticTokenAuth (PyStr ''shared''), closed = False\<rparr>]
        (auth_setter (init PyNone (Some 0)) (PyStr ''own'')) = StaticTokenAuth (PyStr ''own'') \<and>
   make_request [\<lparr>session_auth = StaticTokenAuth (PyStr ''shared''), closed = False\<rparr>]
     (init (PyStr ''own'') (Some 0))
     (\<lambda>c. if dict_get (call_kwargs c) ''auth'' = StaticTokenAuth (PyStr ''per call'') \<and>
               map_of (call_kwargs c) ''params'' = Some (PyDict [])
            then Inr \<lparr>raise_for_status = None, json = None\<rparr>
            else (Inl (RequestException ''refused'') :: api_error_kind exn + response))
     ''GET'' ''account/info'' []
     [(''params'', PyDict []), (''auth'', StaticTokenAuth (PyStr ''per call''))]
   = Inr \<lparr>raise_for_status = None, json = None\<rparr>"
proof -
  let ?h = "[\<lparr>session_auth = StaticTokenAuth (PyStr ''shared''), closed = False\<rparr>]"
  let ?self = "init (PyStr ''own'') (Some 0)"
  let ?transport =
    "\<lambda>c. if dict_get (call_kwargs c) ''auth'' = StaticTokenAuth (PyStr ''per call'') \<and>
             map_of (call_kwargs c) ''params'' = Some (PyDict [])
          then Inr \<lparr>raise_for_status = None, json = None\<rparr>
          else (Inl (RequestException ''refused'') :: api_error_kind exn + response)"
  let ?kwargs = "[(''params'', PyDict []), (''auth'', StaticTokenAuth (PyStr ''per call''))]"
  have fallback: "auth ?h (init PyNone (Some 0)) = StaticTokenAuth (PyStr ''shared'')"
    using C3_auth_resolution [where h = ?h and s = "Some 0", THEN conjunct1] by simp
  have absent: "auth [] (init PyNone None) = PyNone"
    using C3_auth_resolution [where h = "[]" and s = None, THEN conjunct1] by simp
  have given: "PyStr ''own'' \<noteq> PyNone"
    by simp
  have own: "auth ?h (auth_setter (init PyNone (Some 0)) (PyStr ''own''))
               = StaticTokenAuth (PyStr ''own'')"
    using C3_auth_resolution
            [where h = ?h and self = "init PyNone (Some 0)" and val = "PyStr ''own''",
             THEN conjunct2, THEN conjunct2, THEN conjunct2, THEN conjunct1, rule_format,
             OF given]
    by (simp add: auth_setter_def)
  from C3_auth_resolution
         [where h = ?h and self = ?self and transport = ?transport and meth = "''GET''"
            and url = "''account/info''" and args = "[]" and kwargs = ?kwargs]
  obtain kw where
    sent: "make_request ?h ?self ?transport ''GET'' ''account/info'' [] ?kwargs =
             ?transport (case session ?self of
                           Some a \<Rightarrow> SessionRequest a ''GET'' ''account/info'' [] kw
                         | None \<Rightarrow> RequestsRequest ''GET'' ''account/info'' [] kw)"
    and chosen: "dict_get kw ''auth'' =
                   (if truthy (dict_get ?kwargs ''auth'') then dict_get ?kwargs ''auth''
                    else auth ?h ?self)"
    and others: "\<forall>k. k \<noteq> ''auth'' \<longrightarrow> map_of kw k = map_of ?kwargs k"
    by blast
  have held: "session ?self = Some 0"
    by (simp add: init_def)
  have override: "dict_get kw ''auth'' = StaticTokenAuth (PyStr ''per call'')"
    using chosen by (simp add: dict_get_def)
  have params: "map_of kw ''params'' = Some (PyDict [])"
    using others by simp
  have "make_request ?h ?self ?transport ''GET'' ''account/info'' [] ?kwargs
          = Inr \<lparr>raise_for_status = None, json = None\<rparr>"
    by (simp only: sent held option.case call_kwargs.simps override params simp_thms if_True)
  with fallback absent given own show ?thesis by blast
qed

theorem C3_empty_credential_counterexample:
  "auth [] (init (PyStr []) None) = StaticTokenAuth (PyStr []) \<and>
   auth [] (init (PyStr []) None) \<noteq> PyNone \<and>
   auth [\<lparr>session_auth = StaticTokenAuth (PyStr ''shared''), closed = False\<rparr>]
        (init (PyStr []) (Some 0)) = StaticTokenAuth (PyStr []) \<and>
   auth [\<lparr>session_auth = StaticTokenAuth (PyStr ''shared''), closed = False\<rparr>]
        (init (PyStr []) (Some 0))
     \<noteq> session_auth
         ([\<lparr>session_auth = StaticTokenAuth (PyStr ''shared''), closed = False\<rparr>] ! 0)"
  by (simp add: auth_def init_def auth_setter_def)

section \<open>Properties of the scoped session\<close>

text \<open>
  C5. Entering a scope on a client without a session creates exactly one session (the
  store grows by one open session, the others untouched), stores the reference in the
  client and returns the client. Exiting a scope on a client that holds a session
  closes that session, clears the reference and returns None, whatever the arguments:
  \<open>__exit__\<close> gets the exception raised inside the scope there and does not read it.
\<close>

theorem C5_scoped_session:
  "(session self = None \<longrightarrow>
      (case enter h self of
         (h1, self1, ret) \<Rightarrow>
           length h1 = Suc (length h) \<and> take (length h) h1 = h \<and>
           session self1 = Some (length h) \<and> \<not> closed (h1 ! length h) \<and>
           priv_auth self1 = priv_auth self \<and> ret = self1)) \<and>
   (session self = Some a \<and> a < length h \<longrightarrow>
      (case (exit h self args :: 'k exn + store \<times> client \<times> pyval) of
         Inl e \<Rightarrow> False
       | Inr (h2, self2, r) \<Rightarrow>
           session self2 = None \<and> closed (h2 ! a) \<and> length h2 = length h \<and>
           (\<forall>b. b \<noteq> a \<longrightarrow> h2 ! b = h ! b) \<and>
           session_auth (h2 ! a) = session_auth (h ! a) \<and>
           priv_auth self2 = priv_auth self \<and> r = PyNone))"
  by (simp add: enter_def exit_def Let_def)

theorem C5_scoped_session_witness:
  "session (init (PyStr ''secret'') None) = None \<and>
   (case enter [] (init (PyStr ''secret'') None) of
      (h1, self1, ret) \<Rightarrow>
        length h1 = 1 \<and> session self1 = Some 0 \<and> \<not> closed (h1 ! 0) \<and> ret = self1) \<and>
   session \<lparr>priv_auth = StaticTokenAuth (PyStr ''secret''), session = Some 0\<rparr> = Some 0 \<and>
   (0::nat) < length [\<lparr>session_auth = PyNone, closed = False\<rparr>] \<and>
   (case (exit [\<lparr>session_auth = PyNone, closed = False\<rparr>]
            \<lparr>priv_auth = StaticTokenAuth (PyStr ''secret''), session = Some 0\<rparr>
            (Some (RequestException ''raised in the scope'' :: api_error_kind exn))
          :: api_error_kind exn + store \<times> client \<times> pyval) of
      Inl e \<Rightarrow> False
    | Inr (h2, self2, r) \<Rightarrow> session self2 = None \<and> closed (h2 ! 0) \<and> r = PyNone)"
proof -
  have unset: "session (init (PyStr ''secret'') None) = None"
    by (simp add: init_def)
  have held:
    "session \<lparr>priv_auth = StaticTokenAuth (PyStr ''secret''), session = Some 0\<rparr> = Some 0 \<and>
     (0::nat) < length [\<lparr>session_auth = PyNone, closed = False\<rparr>]"
    by simp
  have entered:
    "case enter [] (init (PyStr ''secret'') None) of
       (h1, self1, ret) \<Rightarrow>
         length h1 = 1 \<and> session self1 = Some 0 \<and> \<not> closed (h1 ! 0) \<and> ret = self1"
    using C5_scoped_session [THEN conjunct1, rule_format, OF unset, of "[]"]
    by (auto split: prod.splits)
  have exited:
    "case (exit [\<lparr>session_auth = PyNone, closed = False\<rparr>]
             \<lparr>priv_auth = StaticTokenAuth (PyStr ''secret''), session = Some 0\<rparr>
             (Some (RequestException ''raised in the scope'' :: api_error_kind exn))
           :: api_error_kind exn + store \<times> client \<times> pyval) of
       Inl e \<Rightarrow> False
     | Inr (h2, self2, r) \<Rightarrow> session self2 = None \<and> closed (h2 ! 0) \<and> r = PyNone"
    using C5_scoped_session [THEN conjunct2, rule_format, OF held,
        of "Some (RequestException ''raised in the scope'' :: api_error_kind exn)",
        where ?'k = api_error_kind]
    by (auto split: sum.splits prod.splits)
  from unset entered held exited show ?thesis by blast
qed

text \<open>
  C10. Exiting a scope on a client whose session is None is not a no-op:
  \<open>self.session.close()\<close> is called without a test and raises \<open>AttributeError\<close>. This
  is reached by an exit without an enter, and by a second exit, since the first one
  clears the reference.
\<close>

theorem C10_exit_without_session_raises:
  "(session self = None \<longrightarrow>
      (exit h self args :: 'k exn + store \<times> client \<times> pyval) = Inl AttributeError) \<and>
   (\<forall>h' self' r.
      (exit h self args :: 'k exn + store \<times> client \<times> pyval) = Inr (h', self', r) \<longrightarrow>
      (exit h' self' args' :: 'k exn + store \<times> client \<times> pyval) = Inl AttributeError)"
  by (auto simp add: exit_def split: option.splits)

theorem C10_exit_without_session_raises_witness:
  "session (init PyNone None) = None \<and>
   (exit [] (init PyNone None) (None :: api_error_kind exn option)
      :: api_error_kind exn + store \<times> client \<times> pyval) = Inl AttributeError \<and>
   (exit [\<lparr>session_auth = PyNone, closed = False\<rparr>] (init PyNone (Some 0))
         (None :: api_error_kind exn option)
      :: api_error_kind exn + store \<times> client \<times> pyval)
     = Inr ([\<lparr>session_auth = PyNone, closed = True\<rparr>], init PyNone None, PyNone) \<and>
   (exit [\<lparr>session_auth = PyNone, closed = True\<rparr>] (init PyNone None)
         (None :: api_error_kind exn option)
      :: api_error_kind exn + store \<times> client \<times> pyval) = Inl AttributeError"
proof -
  have first:
    "(exit [\<lparr>session_auth = PyNone, closed = False\<rparr>] (init PyNone (Some 0))
           (None :: api_error_kind exn option)
        :: api_error_kind exn + store \<times> client \<times> pyval)
       = Inr ([\<lparr>session_auth = PyNone, closed = True\<rparr>], init PyNone None, PyNone)"
    by (simp add: exit_def init_def auth_setter_def)
  have unset: "session (init PyNone None) = None"
    by (simp add: init_def)
  have bare:
    "(exit [] (init PyNone None) (None :: api_error_kind exn option)
        :: api_error_kind exn + store \<times> client \<times> pyval) = Inl AttributeError"
    by (rule C10_exit_without_session_raises [THEN conjunct1, rule_format, OF unset])
  have again:
    "(exit [\<lparr>session_auth = PyNone, closed = True\<rparr>] (init PyNone None)
           (None :: api_error_kind exn option)
        :: api_error_kind exn + store \<times> client \<times> pyval) = Inl AttributeError"
    by (rule C10_exit_without_session_raises [THEN conjunct2, rule_format, OF first])
  from unset bare first again show ?thesis by blast
qed

section \<open>Properties of verify\<close>

text \<open>
  C8. Calling \<open>verify\<close> with an email and the default flags hands exactly one call to
  the transport: a GET to \<open>urlfor('single', 'check')\<close> whose \<open>params\<close> are \<open>email\<close>,
  \<open>address_info = 0\<close>, \<open>credits_info = 0\<close> and \<open>max_execution_time = 30\<close>, together with the
  client's auth; the result is what the transport and the response check make of it,
  and for a success response it is the parsed payload. Flags given by the caller go on
  the wire as the integers 0 and 1.
\<close>

theorem C8_verify_default_flags:
  "let request = (\<lambda>address_info credits_info max_execution_time.
         let kwargs = [(''params'', PyDict [(''email'', email),
                                            (''address_info'', PyInt address_info),
                                            (''credits_info'', PyInt credits_info),
                                            (''max_execution_time'', max_execution_time)]),
                       (''auth'', auth h self)]
         in case session self of
              Some a \<Rightarrow> SessionRequest a ''GET'' (urlfor [''single'', ''check'']) [] kwargs
            | None \<Rightarrow> RequestsRequest ''GET'' (urlfor [''single'', ''check'']) [] kwargs);
       finish = (\<lambda>sent.
         case sent of
           Inl e \<Rightarrow> Inl e
         | Inr resp \<Rightarrow>
             (case check_response h self tbl resp of
                Inl e \<Rightarrow> Inl e
              | Inr checked \<Rightarrow>
                  (case json resp of None \<Rightarrow> Inl JSONDecodeError | Some p \<Rightarrow> Inr p)))
   in verify h self transport urlfor tbl email None None None
        = finish (transport (request 0 0 (PyInt 30))) \<and>
      verify h self transport urlfor tbl email (Some ai) (Some ci) (Some t)
        = finish (transport (request (if ai then 1 else 0) (if ci then 1 else 0) t)) \<and>
      (\<forall>resp d.
         transport (request 0 0 (PyInt 30)) = Inr resp \<and> raise_for_status resp = None \<and>
         json resp = Some (PyDict d) \<and> map_of d ''status'' = Some (PyStr ''success'') \<longrightarrow>
         verify h self transport urlfor tbl email None None None = Inr (PyDict d))"
proof -
  have sent:
    "make_request h self transport ''GET'' u [] [(''params'', p)] =
       transport (case session self of
                    Some a \<Rightarrow> SessionRequest a ''GET'' u [] [(''params'', p), (''auth'', auth h self)]
                  | None \<Rightarrow> RequestsRequest ''GET'' u [] [(''params'', p), (''auth'', auth h self)])"
    for u p
    by (simp add: make_request_def dict_get_def split: option.splits)
  have success:
    "check_response h self tbl resp = Inr resp"
    if "raise_for_status resp = None" and "json resp = Some (PyDict d)"
      and "map_of d ''status'' = Some (PyStr ''success'')" for resp d
    using that by (simp add: check_response_def)
  show ?thesis
    unfolding Let_def
  proof (intro conjI allI impI)
    show "verify h self transport urlfor tbl email None None None =
            (case transport
                    (case session self of
                       None \<Rightarrow>
                         RequestsRequest ''GET'' (urlfor [''single'', ''check'']) []
                           [(''params'',
                             PyDict [(''email'', email), (''address_info'', PyInt 0),
                                     (''credits_info'', PyInt 0),
                                     (''max_execution_time'', PyInt 30)]),
                            (''auth'', auth h self)]
                     | Some a \<Rightarrow>
                         SessionRequest a ''GET'' (urlfor [''single'', ''check'']) []
                           [(''params'',
                             PyDict [(''email'', email), (''address_info'', PyInt 0),
                                     (''credits_info'', PyInt 0),
                                     (''max_execution_time'', PyInt 30)]),
                            (''auth'', auth h self)]) of
               Inl e \<Rightarrow> Inl e
             | Inr resp \<Rightarrow>
                 (case check_response h self tbl resp of
                    Inl e \<Rightarrow> Inl e
                  | Inr checked \<Rightarrow>
                      (case json resp of None \<Rightarrow> Inl JSONDecodeError | Some p \<Rightarrow> Inr p)))"
      by (simp add: verify_def sent Let_def)
  next
    show "verify h self transport urlfor tbl email (Some ai) (Some ci) (Some t) =
            (case transport
                    (case session self of
                       None \<Rightarrow>
                         RequestsRequest ''GET'' (urlfor [''single'', ''check'']) []
                           [(''params'',
                             PyDict [(''email'', email),
                                     (''address_info'', PyInt (if ai then 1 else 0)),
                                     (''credits_info'', PyInt (if ci then 1 else 0)),
                                     (''max_execution_time'', t)]),
                            (''auth'', auth h self)]
                     | Some a \<Rightarrow>
                         SessionRequest a ''GET'' (urlfor [''single'', ''check'']) []
                           [(''params'',
                             PyDict [(''email'', email),
                                     (''address_info'', PyInt (if ai then 1 else 0)),
                                     (''credits_info'', PyInt (if ci then 1 else 0)),
                                     (''max_execution_time'', t)]),
                            (''auth'', auth h self)]) of
               Inl e \<Rightarrow> Inl e
             | Inr resp \<Rightarrow>
                 (case check_response h self tbl resp of
                    Inl e \<Rightarrow> Inl e
                  | Inr checked \<Rightarrow>
                      (case json resp of None \<Rightarrow> Inl JSONDecodeError | Some p \<Rightarrow> Inr p)))"
      by (simp add: verify_def sent Let_def of_bool_def)
  next
    fix resp d
    assume ok:
      "transport
         (case session self of
            None \<Rightarrow>
              RequestsRequest ''GET'' (urlfor [''single'', ''check'']) []
                [(''params'',
                  PyDict [(''email'', email), (''address_info'', PyInt 0),
                          (''credits_info'', PyInt 0), (''max_execution_time'', PyInt 30)]),
                 (''auth'', auth h self)]
          | Some a \<Rightarrow>
              SessionRequest a ''GET'' (urlfor [''single'', ''check'']) []
                [(''params'',
                  PyDict [(''email'', email), (''address_info'', PyInt 0),
                          (''credits_info'', PyInt 0), (''max_execution_time'', PyInt 30)]),
                 (''auth'', auth h self)]) = Inr resp \<and>
       raise_for_status resp = None \<and> json resp = Some (PyDict d) \<and>
       map_of d ''status'' = Some (PyStr ''success'')"
    then have "check_response h self tbl resp = Inr resp"
      using success by blast
    with ok show "verify h self transport urlfor tbl email None None None = Inr (PyDict d)"
      by (simp add: verify_def sent Let_def)
  qed
qed

theorem C8_verify_default_flags_witness:
  "verify [] (init (PyStr ''secret'') None)
     (\<lambda>c. if c = RequestsRequest ''GET'' ''/single/check'' []
                   [(''params'', PyDict [(''email'', PyStr ''test@example.com''),
                                         (''address_info'', PyInt 0),
                                         (''credits_info'', PyInt 0),
                                         (''max_execution_time'', PyInt 30)]),
                    (''auth'', StaticTokenAuth (PyStr ''secret''))]
            then Inr \<lparr>raise_for_status = None,
                      json = Some (PyDict [(''status'', PyStr ''success''),
                                           (''result'', PyStr ''valid'')])\<rparr>
            else Inl (RequestException ''another request''))
     (\<lambda>segments. concat (map (\<lambda>s. ''/'' @ s) segments))
     status_to_exception (PyStr ''test@example.com'') None None None
   = Inr (PyDict [(''status'', PyStr ''success''), (''result'', PyStr ''valid'')])"
proof -
  let ?resp = "\<lparr>raise_for_status = None,
                 json = Some (PyDict [(''status'', PyStr ''success''),
                                      (''result'', PyStr ''valid'')])\<rparr>"
  let ?transport =
    "\<lambda>c. if c = RequestsRequest ''GET'' ''/single/check'' []
                  [(''params'', PyDict [(''email'', PyStr ''test@example.com''),
                                        (''address_info'', PyInt 0),
                                        (''credits_info'', PyInt 0),
                                        (''max_execution_time'', PyInt 30)]),
                   (''auth'', StaticTokenAuth (PyStr ''secret''))]
           then Inr ?resp
           else (Inl (RequestException ''another request'') :: api_error_kind exn + response)"
  let ?urlfor = "\<lambda>segments. concat (map (\<lambda>s. ''/'' @ s) segments)"
  let ?self = "init (PyStr ''secret'') None"
  have no_session: "session ?self = None"
    by (simp add: init_def)
  have own: "auth [] ?self = StaticTokenAuth (PyStr ''secret'')"
    by (simp add: auth_def init_def auth_setter_def)
  have hyps:
    "?transport (case session ?self of
                   Some a \<Rightarrow> SessionRequest a ''GET'' (?urlfor [''single'', ''check'']) []
                     [(''params'', PyDict [(''email'', PyStr ''test@example.com''),
                                           (''address_info'', PyInt 0),
                                           (''credits_info'', PyInt 0),
                                           (''max_execution_time'', PyInt 30)]),
                      (''auth'', auth [] ?self)]
                 | None \<Rightarrow> RequestsRequest ''GET'' (?urlfor [''single'', ''check'']) []
                     [(''params'', PyDict [(''email'', PyStr ''test@example.com''),
                                           (''address_info'', PyInt 0),
                                           (''credits_info'', PyInt 0),
                                           (''max_execution_time'', PyInt 30)]),
                      (''auth'', auth [] ?self)]) = Inr ?resp \<and>
     raise_for_status ?resp = None \<and>
     json ?resp = Some (PyDict [(''status'', PyStr ''success''), (''result'', PyStr ''valid'')]) \<and>
     map_of [(''status'', PyStr ''success''), (''result'', PyStr ''valid'')] ''status''
       = Some (PyStr ''success'')"
    by (simp add: no_session own)
  from C8_verify_default_flags
         [of "PyStr ''test@example.com''" "[]" ?self ?urlfor status_to_exception ?transport,
          unfolded Let_def, THEN conjunct2, THEN conjunct2, rule_format, OF hyps]
  show ?thesis .
qed

end
